theory Spec2Isabelle
  imports Main
begin

section \<open>Python strings\<close>

text \<open>
  A Python \<open>str\<close> is modelled as a \<open>string\<close>: the list of its code points, each below 256
  (an Isabelle \<open>char\<close> is eight bits wide). \<open>str.isspace\<close>, \<open>str.strip\<close>, \<open>str.lower\<close>,
  \<open>str.upper\<close>, \<open>str.endswith\<close> and \<open>str.join\<close> are written out for that range.
\<close>

definition py_isspace :: "char \<Rightarrow> bool" where
  "py_isspace c =
     (let n = (of_char c :: nat)
      in (9 \<le> n \<and> n \<le> 13) \<or> (28 \<le> n \<and> n \<le> 32) \<or> n = 133 \<or> n = 160)"

definition py_lstrip :: "string \<Rightarrow> string" where
  "py_lstrip s = dropWhile py_isspace s"

definition py_rstrip :: "string \<Rightarrow> string" where
  "py_rstrip s = rev (dropWhile py_isspace (rev s))"

definition py_strip :: "string \<Rightarrow> string" where
  "py_strip s = py_rstrip (py_lstrip s)"

definition lower_char :: "char \<Rightarrow> char" where
  "lower_char c =
     (let n = (of_char c :: nat)
      in if (65 \<le> n \<and> n \<le> 90) \<or> (192 \<le> n \<and> n \<le> 222 \<and> n \<noteq> 215)
         then char_of (n + 32) else c)"

definition py_lower :: "string \<Rightarrow> string" where
  "py_lower s = map lower_char s"

definition py_endswith :: "string \<Rightarrow> string \<Rightarrow> bool" where
  "py_endswith s suffix =
     (length suffix \<le> length s \<and> drop (length s - length suffix) s = suffix)"

fun py_join :: "string \<Rightarrow> string list \<Rightarrow> string" where
  "py_join sep [] = []"
| "py_join sep [x] = x"
| "py_join sep (x # y # ys) = x @ sep @ py_join sep (y # ys)"

text \<open>The quote character, for messages that contain it.\<close>

definition quote :: char where
  "quote = char_of (39 :: nat)"

section \<open>Dictionaries in insertion order\<close>

text \<open>
  A Python \<open>dict\<close> keeps its keys in insertion order; assigning to a key that is present
  replaces the value where it stands.
\<close>

fun dict_set :: "('k \<times> 'v) list \<Rightarrow> 'k \<Rightarrow> 'v \<Rightarrow> ('k \<times> 'v) list" where
  "dict_set [] k v = [(k, v)]"
| "dict_set ((k', v') # d) k v = (if k' = k then (k, v) # d else (k', v') # dict_set d k v)"

section \<open>Configuration: \<open>load_config\<close>\<close>

text \<open>
  What \<open>configparser\<close> read from the settings file is a parameter: the values of the
  options the program asks for, \<open>None\<close> where the file (or the section, or the option) is
  absent. The option names of the \<open>languages\<close> section are the language codes.
\<close>

record config_source =
  whisper_model_size :: "string option"
  whisper_device :: "string option"
  whisper_compute_type :: "string option"
  languages_section :: "(string \<times> string) list option"
  hotkey_key :: "string option"
  behavior_auto_type :: "bool option"
  behavior_notifications :: "bool option"

record lang_config =
  lang_key :: string
  lang_model :: string

record config =
  model_size :: string
  device :: string
  compute_type :: string
  languages :: "(string \<times> lang_config) list"
  auto_type :: bool
  notifications :: bool

definition fallback :: "'a option \<Rightarrow> 'a \<Rightarrow> 'a" where
  "fallback v d = (case v of Some x \<Rightarrow> x | None \<Rightarrow> d)"

text \<open>Lines 49 to 55: the loop over the items of the \<open>languages\<close> section.\<close>

fun load_languages ::
  "string \<Rightarrow> (string \<times> string) list \<Rightarrow> (string \<times> lang_config) list
     \<Rightarrow> (string \<times> lang_config) list" where
  "load_languages model_size' [] languages' = languages'"
| "load_languages model_size' ((lang, hotkey) # items) languages' =
     load_languages model_size' items
       (dict_set languages' lang
          \<lparr>lang_key = py_strip hotkey,
             lang_model = (if lang = ''en'' then model_size' @ ''.en'' else model_size')\<rparr>)"

definition load_config :: "config_source \<Rightarrow> config" where
  "load_config src =
     (let model_size' = fallback (whisper_model_size src) ''base'';
          languages' =
            (case languages_section src of
               Some items \<Rightarrow> load_languages model_size' items []
             | None \<Rightarrow>
                 [(''auto'', \<lparr>lang_key = fallback (hotkey_key src) ''f12'', lang_model = model_size'\<rparr>)])
      in \<lparr>model_size = model_size',
          device = fallback (whisper_device src) ''cpu'',
          compute_type = fallback (whisper_compute_type src) ''int8'',
          languages = languages',
          auto_type = fallback (behavior_auto_type src) True,
          notifications = fallback (behavior_notifications src) True\<rparr>)"

section \<open>Hotkeys: \<open>get_hotkey\<close>\<close>

text \<open>
  A key of the keyboard library is a member of its enumeration \<open>Key\<close>, written with the
  member's name, or a character key made by \<open>KeyCode.from_char\<close>; these are what the
  listener delivers. \<open>getattr(keyboard.Key, name)\<close> is a key when the name is a member's,
  and some other object when the name is another attribute of the class (its method
  \<open>mro\<close>, its \<open>__doc__\<close>): an object that is no key, written with the attribute's name.
  The enumeration belongs to the library: \<open>attribute\<close> is the parameter that says what
  \<open>getattr(keyboard.Key, name)\<close> is where \<open>hasattr(keyboard.Key, name)\<close> holds, and \<open>None\<close>
  where it does not.
\<close>

datatype hotkey = Key string | KeyCode char

datatype key_object = AKey hotkey | NonKey string

datatype resolution = Named | FromChar | Defaulted

text \<open>
  \<open>get_hotkey\<close> returns an object; the model also returns the lines it prints and the
  branch that made the object.
\<close>

definition get_hotkey ::
  "(string \<Rightarrow> key_object option) \<Rightarrow> string \<Rightarrow> key_object \<times> string list \<times> resolution" where
  "get_hotkey attribute key_name =
     (let key_name' = py_lower key_name
      in case attribute key_name' of
           Some k \<Rightarrow> (k, [], Named)
         | None \<Rightarrow>
             if length key_name' = 1 then (AKey (KeyCode (hd key_name')), [], FromChar)
             else (AKey (Key ''f12''),
                   [''Unknown key: '' @ key_name' @ '', defaulting to f12''], Defaulted))"

text \<open>Lines 89 to 92: the table from hotkeys to languages, later bindings replacing earlier ones.\<close>

fun build_hotkey_to_lang ::
  "(string \<Rightarrow> key_object option) \<Rightarrow> (string \<times> lang_config) list
     \<Rightarrow> (key_object \<times> string \<times> string) list \<Rightarrow> (key_object \<times> string \<times> string) list" where
  "build_hotkey_to_lang attribute [] table = table"
| "build_hotkey_to_lang attribute ((lang, lang_config') # items) table =
     build_hotkey_to_lang attribute items
       (dict_set table (fst (get_hotkey attribute (lang_key lang_config')))
          (lang, lang_model lang_config'))"

text \<open>
  An example of the library's enumeration: the function keys \<open>f1\<close> to \<open>f12\<close> are its
  members, and \<open>mro\<close> is an attribute of the class that is no key.
\<close>

definition function_keys :: "string \<Rightarrow> key_object option" where
  "function_keys name =
     (if name \<in> set [''f1'', ''f2'', ''f3'', ''f4'', ''f5'', ''f6'', ''f7'', ''f8'', ''f9'',
                      ''f10'', ''f11'', ''f12'']
      then Some (AKey (Key name))
      else if name = ''mro'' then Some (NonKey name) else None)"

section \<open>The program's state and its collaborators\<close>

text \<open>
  The entry of the model cache is the dictionary \<open>{"model", "loaded", "error"}\<close>: the engine
  (a handle), whether the event \<open>loaded\<close> is set, and the text of the load's exception.
  The entries are shared between the threads by reference, so they live in a store
  (\<open>heap\<close>) and the cache maps a model name to the reference of its entry.
\<close>

record model_info =
  model :: "nat option"
  loaded :: bool
  error :: "string option"

text \<open>
  A load thread runs \<open>_load_model\<close>: started, it looks its entry up, constructs the engine
  and writes the engine or the error (lines 143 to 152); then it sets the event (line 154).
\<close>

datatype load_thread =
    Started "string option"
  | Constructed "string option" nat
  | Finished "string option"
  | Crashed "string option"

text \<open>What the program does to the outside, in the order it does it.\<close>

datatype event =
    Print string
  | NotifySend string string string nat
  | ThreadStart "string option"
  | TempFile nat
  | Arecord nat
  | Terminate nat
  | Transcribe nat nat "string option"
  | Xclip string
  | Xdotool string
  | Unlink nat

text \<open>The fields of \<open>Dictation.__init__\<close>; a model name is a Python value, \<open>None\<close> or a string.\<close>

record dictation =
  recording :: bool
  record_process :: "nat option"
  temp_file :: "nat option"
  running :: bool
  active_language :: "string option"
  active_model_name :: "string option"
  models :: "(string option \<times> nat) list"

text \<open>
  The object together with what it shares with the rest of the process: the store of the
  cache entries, the load threads that were started, the files that exist (a temporary
  file is named by a number, \<open>next_temp\<close> the next fresh one) and the events so far.
\<close>

record system = dictation +
  heap :: "nat \<Rightarrow> model_info"
  next_ref :: nat
  threads :: "load_thread list"
  files :: "nat list"
  next_temp :: nat
  trace :: "event list"

text \<open>
  The module's constants and the collaborators, as parameters: the engine's constructor
  and its \<open>transcribe\<close> (the segments' texts, or the text of the exception raised by the
  call or while the segments are read), and whether the clipboard and the typing
  commands raise.
\<close>

record env =
  DEVICE :: string
  COMPUTE_TYPE :: string
  AUTO_TYPE :: bool
  NOTIFICATIONS :: bool
  HOTKEY_TO_LANG :: "(key_object \<times> string \<times> string) list"
  WhisperModel :: "string option \<Rightarrow> string \<Rightarrow> string \<Rightarrow> string + nat"
  transcribe :: "nat \<Rightarrow> nat \<Rightarrow> string option \<Rightarrow> string + string list"
  xclip :: "string \<Rightarrow> string option"
  xdotool :: "string \<Rightarrow> string option"

definition init :: system where
  "init =
     \<lparr>recording = False, record_process = None, temp_file = None, running = True,
      active_language = None, active_model_name = None, models = [],
      heap = (\<lambda>r. \<lparr>model = None, loaded = False, error = None\<rparr>), next_ref = 0,
      threads = [], files = [], next_temp = 0, trace = []\<rparr>"

definition emit :: "event \<Rightarrow> system \<Rightarrow> system" where
  "emit ev s = s\<lparr>trace := trace s @ [ev]\<rparr>"

definition py_print :: "string \<Rightarrow> system \<Rightarrow> system" where
  "py_print line s = emit (Print line) s"

definition notify :: "env \<Rightarrow> string \<Rightarrow> string \<Rightarrow> string \<Rightarrow> nat \<Rightarrow> system \<Rightarrow> system" where
  "notify e title message icon timeout s =
     (if \<not> NOTIFICATIONS e then s else emit (NotifySend title message icon timeout) s)"

text \<open>The events a call added: those of the later state beyond the earlier state's.\<close>

definition new_events :: "system \<Rightarrow> system \<Rightarrow> event list" where
  "new_events s s' = drop (length (trace s)) (trace s')"

section \<open>The model cache: \<open>_get_or_load_model\<close> and \<open>_load_model\<close>\<close>

text \<open>
  \<open>_get_or_load_model\<close> checks and creates under the cache's lock, so it is one atomic
  step; it returns the reference of the entry that \<open>self.models[model_name]\<close> holds.
\<close>

definition get_or_load_model :: "string option \<Rightarrow> system \<Rightarrow> nat \<times> system" where
  "get_or_load_model model_name s =
     (case map_of (models s) model_name of
        Some r \<Rightarrow> (r, s)
      | None \<Rightarrow>
          (let r = next_ref s
           in (r, emit (ThreadStart model_name)
                    (s\<lparr>models := dict_set (models s) model_name r,
                       heap := (heap s)(r := \<lparr>model = None, loaded = False, error = None\<rparr>),
                       next_ref := Suc r,
                       threads := threads s @ [Started model_name]\<rparr>))))"

definition py_str :: "string option \<Rightarrow> string" where
  "py_str v = (case v of None \<Rightarrow> ''None'' | Some x \<Rightarrow> x)"

fun py_contains :: "string \<Rightarrow> string \<Rightarrow> bool" where
  "py_contains needle [] = (needle = [])"
| "py_contains needle (c # cs) =
     (take (length needle) (c # cs) = needle \<or> py_contains needle cs)"

definition load_failed :: "string option \<Rightarrow> string \<Rightarrow> system \<Rightarrow> system" where
  "load_failed model_name msg s =
     (let s1 = py_print (''Failed to load model '' @ py_str model_name @ '': '' @ msg) s
      in if py_contains ''cudnn'' (py_lower msg) \<or> py_contains ''cuda'' (py_lower msg)
         then py_print ''Hint: Try setting device = cpu in your config, or install cuDNN.'' s1
         else s1)"

fun load_model_step :: "env \<Rightarrow> load_thread \<Rightarrow> system \<Rightarrow> load_thread \<times> system" where
  "load_model_step e (Started model_name) s =
     (case map_of (models s) model_name of
        None \<Rightarrow> (Crashed model_name, s)
      | Some r \<Rightarrow>
          (let s1 = py_print (''Loading Whisper model ('' @ py_str model_name @ '')...'') s
           in case WhisperModel e model_name (DEVICE e) (COMPUTE_TYPE e) of
                Inr m \<Rightarrow>
                  (Constructed model_name r,
                   py_print (''Model '' @ py_str model_name @ '' loaded.'')
                     (s1\<lparr>heap := (heap s1)(r := (heap s1 r)\<lparr>model := Some m\<rparr>)\<rparr>))
              | Inl msg \<Rightarrow>
                  (Constructed model_name r,
                   load_failed model_name msg
                     (s1\<lparr>heap := (heap s1)(r := (heap s1 r)\<lparr>error := Some msg\<rparr>)\<rparr>))))"
| "load_model_step e (Constructed model_name r) s =
     (Finished model_name, s\<lparr>heap := (heap s)(r := (heap s r)\<lparr>loaded := True\<rparr>)\<rparr>)"
| "load_model_step e (Finished model_name) s = (Finished model_name, s)"
| "load_model_step e (Crashed model_name) s = (Crashed model_name, s)"

text \<open>One step of the load thread number \<open>i\<close>.\<close>

definition step_thread :: "env \<Rightarrow> nat \<Rightarrow> system \<Rightarrow> system" where
  "step_thread e i s =
     (if i < length (threads s)
      then (let (t, s') = load_model_step e (threads s ! i) s
            in s'\<lparr>threads := (threads s')[i := t]\<rparr>)
      else s)"

text \<open>
  \<open>model_info["loaded"].wait()\<close> blocks until the event is set. Only the load thread of
  that entry sets it: the wait returns once that thread has taken the steps it has left,
  and never returns (\<open>None\<close>) when no thread is there to set the event.
\<close>

definition sets_event :: "system \<Rightarrow> nat \<Rightarrow> load_thread \<Rightarrow> bool" where
  "sets_event s r t =
     (case t of
        Started model_name \<Rightarrow> map_of (models s) model_name = Some r
      | Constructed model_name r' \<Rightarrow> r' = r
      | Finished model_name \<Rightarrow> False
      | Crashed model_name \<Rightarrow> False)"

fun first_index :: "('a \<Rightarrow> bool) \<Rightarrow> 'a list \<Rightarrow> nat option" where
  "first_index P [] = None"
| "first_index P (x # xs) =
     (if P x then Some 0 else map_option Suc (first_index P xs))"

definition wait_loaded :: "env \<Rightarrow> nat \<Rightarrow> system \<Rightarrow> system option" where
  "wait_loaded e r s =
     (if loaded (heap s r) then Some s
      else case first_index (sets_event s r) (threads s) of
             None \<Rightarrow> None
           | Some i \<Rightarrow>
               (let s' = step_thread e i (step_thread e i s)
                in if loaded (heap s' r) then Some s' else None))"

section \<open>The recording session: \<open>start_recording\<close> and \<open>stop_recording\<close>\<close>

text \<open>
  \<open>str.upper\<close> only words a message. The three letters below 256 whose capitals lie
  beyond 255 or are two letters long (code points 181, 223 and 255) are left as they are.
\<close>

definition upper_char :: "char \<Rightarrow> char" where
  "upper_char c =
     (let n = (of_char c :: nat)
      in if (97 \<le> n \<and> n \<le> 122) \<or> (224 \<le> n \<and> n \<le> 254 \<and> n \<noteq> 247)
         then char_of (n - 32) else c)"

definition py_upper :: "string \<Rightarrow> string" where
  "py_upper s = map upper_char s"

definition hotkey_name :: "hotkey \<Rightarrow> string" where
  "hotkey_name k = (case k of Key name \<Rightarrow> name | KeyCode c \<Rightarrow> [c])"

definition lang_display :: "string \<Rightarrow> string" where
  "lang_display language = (if language = ''auto'' then ''auto-detect'' else py_upper language)"

definition start_recording :: "env \<Rightarrow> string \<Rightarrow> string \<Rightarrow> hotkey \<Rightarrow> system \<Rightarrow> system" where
  "start_recording e language model_name k s =
     (if recording s then s
      else
        (let s1 = snd (get_or_load_model (Some model_name) s);
             p = next_temp s1;
             s2 = emit (TempFile p)
                    (s1\<lparr>recording := True, active_language := Some language,
                        active_model_name := Some model_name, temp_file := Some p,
                        files := p # files s1, next_temp := Suc p\<rparr>);
             s3 = (emit (Arecord p) s2)\<lparr>record_process := Some p\<rparr>;
             s4 = py_print (''Recording ('' @ lang_display language @ '')...'') s3
         in notify e (''Recording ('' @ lang_display language @ '')...'')
              (''Release '' @ py_upper (hotkey_name k) @ '' when done'')
              ''audio-input-microphone'' 30000 s4))"

text \<open>An attribute read on \<open>None\<close> raises; this is the text of the exception.\<close>

definition no_attribute :: "string \<Rightarrow> string" where
  "no_attribute name =
     quote # ''NoneType'' @ quote # '' object has no attribute '' @ quote # name @ [quote]"

text \<open>
  Lines 231 to 238: the \<open>language\<close> entry of \<open>transcribe_kwargs\<close>, \<open>None\<close> when it is not
  set. A Python string is true when it is not empty.
\<close>

definition language_kwarg :: "string option \<Rightarrow> string option \<Rightarrow> string + string option" where
  "language_kwarg active_language' active_model_name' =
     (case active_language' of
        None \<Rightarrow> Inr None
      | Some l \<Rightarrow>
          if l \<noteq> [] \<and> l \<noteq> ''auto'' then
            (case active_model_name' of
               None \<Rightarrow> Inl (no_attribute ''endswith'')
             | Some m \<Rightarrow> if \<not> py_endswith m ''.en'' then Inr (Some l) else Inr None)
          else Inr None)"

text \<open>Line 245.\<close>

definition transcript_of :: "string list \<Rightarrow> string" where
  "transcript_of segments = py_join '' '' (map py_strip segments)"

text \<open>
  Lines 247 to 263: what is done with the text. The result is the state and the text of
  the exception, if one was raised.
\<close>

definition deliver :: "env \<Rightarrow> string \<Rightarrow> system \<Rightarrow> system \<times> string option" where
  "deliver e text s =
     (if text \<noteq> [] then
        (let s1 = emit (Xclip text) s
         in case xclip e text of
              Some exn \<Rightarrow> (s1, Some exn)
            | None \<Rightarrow>
                (let s2 = (if AUTO_TYPE e then emit (Xdotool text) s1 else s1);
                     typed = (if AUTO_TYPE e then xdotool e text else None)
                 in case typed of
                      Some exn \<Rightarrow> (s2, Some exn)
                    | None \<Rightarrow>
                        (notify e ''Copied!''
                           (take 100 text @ (if length text > 100 then ''...'' else []))
                           ''emblem-ok-symbolic'' 3000
                           (py_print (''Copied: '' @ text) s2),
                         None)))
      else
        (notify e ''No speech detected'' ''Try speaking louder'' ''dialog-warning'' 2000
           (py_print ''No speech detected'' s),
         None))"

text \<open>Lines 231 to 263: the body of the \<open>try\<close>.\<close>

definition transcribe_and_deliver :: "env \<Rightarrow> model_info \<Rightarrow> system \<Rightarrow> system \<times> string option" where
  "transcribe_and_deliver e info s =
     (case language_kwarg (active_language s) (active_model_name s) of
        Inl exn \<Rightarrow> (s, Some exn)
      | Inr language \<Rightarrow>
          (case model info of
             None \<Rightarrow> (s, Some (no_attribute ''transcribe''))
           | Some engine \<Rightarrow>
               (case temp_file s of
                  None \<Rightarrow> (s, Some (no_attribute ''name''))
                | Some p \<Rightarrow>
                    (let s1 = emit (Transcribe engine p language) s
                     in case transcribe e engine p language of
                          Inl exn \<Rightarrow> (s1, Some exn)
                        | Inr segments \<Rightarrow> deliver e (transcript_of segments) s1))))"

text \<open>Lines 265 to 267: the \<open>except\<close> clause.\<close>

definition handle_exception :: "env \<Rightarrow> string option \<Rightarrow> system \<Rightarrow> system" where
  "handle_exception e exn s =
     (case exn of
        None \<Rightarrow> s
      | Some msg \<Rightarrow>
          notify e ''Error'' (take 50 msg) ''dialog-error'' 3000
            (py_print (''Error: '' @ msg) s))"

text \<open>Lines 268 to 271: the \<open>finally\<close> clause.\<close>

definition cleanup :: "system \<Rightarrow> system" where
  "cleanup s =
     (case temp_file s of
        None \<Rightarrow> s
      | Some p \<Rightarrow>
          if p \<in> set (files s) then emit (Unlink p) (s\<lparr>files := removeAll p (files s)\<rparr>)
          else s)"

definition truthy :: "string option \<Rightarrow> bool" where
  "truthy v = (case v of None \<Rightarrow> False | Some x \<Rightarrow> x \<noteq> [])"

text \<open>
  \<open>stop_recording\<close>; \<open>None\<close> when it never returns, which is when the wait for the model
  never ends.
\<close>

definition stop_recording :: "env \<Rightarrow> system \<Rightarrow> system option" where
  "stop_recording e s =
     (if \<not> recording s then Some s
      else
        (let s1 = s\<lparr>recording := False\<rparr>;
             s2 = (case record_process s1 of
                     Some p \<Rightarrow> (emit (Terminate p) s1)\<lparr>record_process := None\<rparr>
                   | None \<Rightarrow> s1);
             s3 = notify e ''Transcribing...'' ''Processing your speech''
                    ''emblem-synchronizing'' 30000 (py_print ''Transcribing...'' s2);
             r = fst (get_or_load_model (active_model_name s3) s3);
             s4 = snd (get_or_load_model (active_model_name s3) s3)
         in case wait_loaded e r s4 of
              None \<Rightarrow> None
            | Some s5 \<Rightarrow>
                if truthy (error (heap s5 r)) then
                  Some (notify e ''Error'' ''Model failed to load'' ''dialog-error'' 3000
                          (py_print ''Cannot transcribe: model failed to load'' s5))
                else
                  (let s6 = fst (transcribe_and_deliver e (heap s5 r) s5);
                       exn = snd (transcribe_and_deliver e (heap s5 r) s5)
                   in Some (cleanup (handle_exception e exn s6)))))"

section \<open>The controller: \<open>on_press\<close> and \<open>on_release\<close>\<close>

definition on_press :: "env \<Rightarrow> hotkey \<Rightarrow> system \<Rightarrow> system" where
  "on_press e k s =
     (case map_of (HOTKEY_TO_LANG e) (AKey k) of
        Some (lang, model_name) \<Rightarrow> start_recording e lang model_name k s
      | None \<Rightarrow> s)"

definition on_release :: "env \<Rightarrow> hotkey \<Rightarrow> system \<Rightarrow> system option" where
  "on_release e k s =
     (if map_of (HOTKEY_TO_LANG e) (AKey k) \<noteq> None \<and> recording s then stop_recording e s
      else Some s)"

text \<open>
  An execution is a sequence of atomic steps: the listener thread handles a key event (it
  handles them one after the other), some thread calls \<open>_get_or_load_model\<close>, or a load
  thread takes a step. It ends in \<open>None\<close> when the listener never returns from a wait.
\<close>

datatype action = Press hotkey | Release hotkey | Acquire "string option" | Step nat

definition exec :: "env \<Rightarrow> action \<Rightarrow> system \<Rightarrow> system option" where
  "exec e a s =
     (case a of
        Press k \<Rightarrow> Some (on_press e k s)
      | Release k \<Rightarrow> on_release e k s
      | Acquire model_name \<Rightarrow> Some (snd (get_or_load_model model_name s))
      | Step i \<Rightarrow> Some (step_thread e i s))"

fun run :: "env \<Rightarrow> action list \<Rightarrow> system \<Rightarrow> system option" where
  "run e [] s = Some s"
| "run e (a # as) s = (case exec e a s of None \<Rightarrow> None | Some s' \<Rightarrow> run e as s')"

section \<open>The specification's words, and examples\<close>

text \<open>
  Trimming as the specification words it: the text between the first and the last
  character that is not white space. Joining with single spaces: the first text, then
  each further text after one space.
\<close>

definition spec_trim :: "string \<Rightarrow> string" where
  "spec_trim s =
     (let i = length (takeWhile py_isspace s);
          j = length s - length (takeWhile py_isspace (rev s))
      in take (j - i) (drop i s))"

definition spec_join_spaces :: "string list \<Rightarrow> string" where
  "spec_join_spaces ts =
     (case ts of [] \<Rightarrow> [] | t # ts' \<Rightarrow> t @ concat (map (\<lambda>u. '' '' @ u) ts'))"

text \<open>A settings file that sets at most the base model name and the \<open>languages\<close> section.\<close>

definition settings :: "string option \<Rightarrow> (string \<times> string) list option \<Rightarrow> config_source" where
  "settings base langs =
     \<lparr>whisper_model_size = base, whisper_device = None, whisper_compute_type = None,
      languages_section = langs, hotkey_key = None, behavior_auto_type = None,
      behavior_notifications = None\<rparr>"

text \<open>A settings file with two languages and nothing else.\<close>

definition example_source :: config_source where
  "example_source =
     \<lparr>whisper_model_size = None, whisper_device = None, whisper_compute_type = None,
      languages_section = Some [(''en'', ''f9''), (''de'', '' f10 '')],
      hotkey_key = None, behavior_auto_type = None, behavior_notifications = None\<rparr>"

section \<open>Events and sessions\<close>

text \<open>Lines 88 to 97: the module's constants, made from the configuration.\<close>

definition module_env ::
  "(string \<Rightarrow> key_object option) \<Rightarrow> config
     \<Rightarrow> (string option \<Rightarrow> string \<Rightarrow> string \<Rightarrow> string + nat)
     \<Rightarrow> (nat \<Rightarrow> nat \<Rightarrow> string option \<Rightarrow> string + string list)
     \<Rightarrow> (string \<Rightarrow> string option) \<Rightarrow> (string \<Rightarrow> string option) \<Rightarrow> env" where
  "module_env attribute c construct engine clip type =
     \<lparr>DEVICE = device c, COMPUTE_TYPE = compute_type c, AUTO_TYPE = auto_type c,
      NOTIFICATIONS = notifications c,
      HOTKEY_TO_LANG = build_hotkey_to_lang attribute (languages c) [],
      WhisperModel = construct, transcribe = engine, xclip = clip, xdotool = type\<rparr>"

text \<open>
  Two examples: collaborators that all succeed, the engine hearing two segments; and the
  same with an engine whose construction fails.
\<close>

definition example_env :: env where
  "example_env =
     module_env function_keys (load_config example_source)
       (\<lambda>model_name d c. Inr 1)
       (\<lambda>engine p language. Inr [''  hello '', ''world ''])
       (\<lambda>text. None) (\<lambda>text. None)"

definition failing_env :: env where
  "failing_env = example_env\<lparr>WhisperModel := (\<lambda>model_name d c. Inl ''CUDA driver not found'')\<rparr>"



text \<open>The events that only report: lines printed, notifications, thread starts, the end of the capture.\<close>

fun quiet :: "event \<Rightarrow> bool" where
  "quiet (Print line) = True"
| "quiet (NotifySend title message icon timeout) = True"
| "quiet (ThreadStart model_name) = True"
| "quiet (Terminate p) = True"
| "quiet ev = False"

text \<open>The events that neither transcribe nor deliver nor capture: the reports and the deletions.\<close>

fun silent :: "event \<Rightarrow> bool" where
  "silent (Unlink p) = True"
| "silent ev = quiet ev"

text \<open>The fields of the session that the cache and the reports leave alone.\<close>

definition session ::
  "system \<Rightarrow> bool \<times> nat option \<times> nat option \<times> string option \<times> string option \<times> nat list \<times> nat" where
  "session s =
     (recording s, record_process s, temp_file s, active_language s, active_model_name s,
      files s, next_temp s)"

text \<open>\<open>s'\<close> comes after \<open>s\<close> by reports only: the session is the same, the new events are quiet.\<close>

definition reports :: "system \<Rightarrow> system \<Rightarrow> bool" where
  "reports s s' =
     (session s' = session s \<and> take (length (trace s)) (trace s') = trace s \<and>
      list_all quiet (new_events s s'))"


text \<open>A third example: every collaborator succeeds and the engine hears nothing.\<close>

definition silent_env :: env where
  "silent_env = example_env\<lparr>transcribe := (\<lambda>engine p language. Inr [])\<rparr>"

section \<open>Properties of the configuration and of the text functions\<close>

lemma py_join_concat:
  "py_join sep ts = (case ts of [] \<Rightarrow> [] | t # ts' \<Rightarrow> t @ concat (map (\<lambda>u. sep @ u) ts'))"
  by (induction sep ts rule: py_join.induct) auto

lemma rev_dropWhile_take:
  "rev (dropWhile P (rev xs)) = take (length xs - length (takeWhile P (rev xs))) xs"
proof -
  have "rev xs = takeWhile P (rev xs) @ dropWhile P (rev xs)" by simp
  then have "xs = rev (dropWhile P (rev xs)) @ rev (takeWhile P (rev xs))"
    by (metis rev_append rev_rev_ident)
  then show ?thesis
    by (metis append_eq_conv_conj diff_add_inverse2 length_append length_rev)
qed

lemma takeWhile_rev_dropWhile:
  assumes "dropWhile P xs \<noteq> []"
  shows "takeWhile P (rev xs) = takeWhile P (rev (dropWhile P xs))"
proof -
  have "\<not> P (hd (dropWhile P xs))"
    using assms by (rule hd_dropWhile)
  moreover have "hd (dropWhile P xs) \<in> set (rev (dropWhile P xs))"
    using assms by simp
  moreover have "rev xs = rev (dropWhile P xs) @ rev (takeWhile P xs)"
    by (metis rev_append takeWhile_dropWhile_id)
  ultimately show ?thesis
    by (metis takeWhile_append1)
qed

lemma py_strip_spec: "py_strip s = spec_trim s"
proof (cases "dropWhile py_isspace s = []")
  case True
  then show ?thesis
    by (simp add: py_strip_def py_rstrip_def py_lstrip_def spec_trim_def dropWhile_eq_drop)
next
  case False
  have len: "length (dropWhile py_isspace s) = length s - length (takeWhile py_isspace s)"
    by (simp add: dropWhile_eq_drop)
  show ?thesis
    unfolding py_strip_def py_rstrip_def py_lstrip_def spec_trim_def Let_def
    by (simp add: rev_dropWhile_take takeWhile_rev_dropWhile [OF False, symmetric] len
        dropWhile_eq_drop [symmetric] add.commute)
qed

lemma map_of_dict_set: "map_of (dict_set d k v) k' = (if k' = k then Some v else map_of d k')"
  by (induction d) auto

lemma dict_set_fresh: "map_of d k = None \<Longrightarrow> dict_set d k v = d @ [(k, v)]"
  by (induction d) (auto split: if_splits)

lemma load_languages_model:
  "map_option lang_model (map_of (load_languages ms items acc) l) =
     (if l \<in> fst ` set items then Some (if l = ''en'' then ms @ ''.en'' else ms)
      else map_option lang_model (map_of acc l))"
  by (induction ms items acc rule: load_languages.induct) (auto simp: map_of_dict_set)

lemma load_config_model_size:
  "model_size (load_config src) = fallback (whisper_model_size src) ''base''"
  by (simp add: load_config_def Let_def)

text \<open>
  Claim C5. \<open>load_config\<close> gives every language of the \<open>languages\<close> section the base model
  name with \<open>.en\<close> appended when the language is exactly \<open>en\<close>, and the base model name
  unchanged for every other language, \<open>auto\<close> included; a language that is not in the
  section gets no binding; without the section the one binding is \<open>auto\<close> with the base
  model name. So \<open>en\<close> with base \<open>base\<close> gets \<open>base.en\<close>, \<open>fr\<close> with \<open>base\<close> gets \<open>base\<close>, and
  \<open>auto\<close> with \<open>small\<close> gets \<open>small\<close>, configured or as the fallback.
\<close>

theorem load_config_model:
  "(languages_section src = Some items \<and> lang \<in> fst ` set items \<longrightarrow>
      map_option lang_model (map_of (languages (load_config src)) lang) =
        Some (if lang = ''en'' then fallback (whisper_model_size src) ''base'' @ ''.en''
              else fallback (whisper_model_size src) ''base'')) \<and>
   (languages_section src = Some items \<and> lang \<notin> fst ` set items \<longrightarrow>
      map_of (languages (load_config src)) lang = None) \<and>
   (languages_section src = None \<longrightarrow>
      languages (load_config src) =
        [(''auto'', \<lparr>lang_key = fallback (hotkey_key src) ''f12'',
                     lang_model = fallback (whisper_model_size src) ''base''\<rparr>)]) \<and>
   map_option lang_model
     (map_of (languages (load_config (settings (Some ''base'') (Some [(''en'', ''f9''), (''fr'', ''f10'')]))))
        ''en'') = Some ''base.en'' \<and>
   map_option lang_model
     (map_of (languages (load_config (settings (Some ''base'') (Some [(''en'', ''f9''), (''fr'', ''f10'')]))))
        ''fr'') = Some ''base'' \<and>
   map_option lang_model
     (map_of (languages (load_config (settings (Some ''small'') (Some [(''auto'', ''f12'')])))) ''auto'') =
     Some ''small'' \<and>
   map_option lang_model
     (map_of (languages (load_config (settings (Some ''small'') None))) ''auto'') = Some ''small''"
proof (intro conjI impI)
  assume "languages_section src = Some items \<and> lang \<in> fst ` set items"
  then show "map_option lang_model (map_of (languages (load_config src)) lang) =
        Some (if lang = ''en'' then fallback (whisper_model_size src) ''base'' @ ''.en''
              else fallback (whisper_model_size src) ''base'')"
    by (simp add: load_config_def Let_def load_languages_model)
next
  assume a: "languages_section src = Some items \<and> lang \<notin> fst ` set items"
  have "map_option lang_model
          (map_of (load_languages (fallback (whisper_model_size src) ''base'') items []) lang) = None"
    using a by (simp add: load_languages_model)
  then show "map_of (languages (load_config src)) lang = None"
    using a by (simp add: load_config_def Let_def)
next
  assume "languages_section src = None"
  then show "languages (load_config src) =
        [(''auto'', \<lparr>lang_key = fallback (hotkey_key src) ''f12'',
                     lang_model = fallback (whisper_model_size src) ''base''\<rparr>)]"
    by (simp add: load_config_def Let_def)
qed (simp_all add: load_config_def Let_def load_languages_model settings_def fallback_def)

text \<open>The example settings file: \<open>en\<close> and \<open>de\<close> are configured, \<open>fr\<close> is not, the base is the default.\<close>

theorem load_config_model_witness:
  "languages_section example_source = Some [(''en'', ''f9''), (''de'', '' f10 '')] \<and>
   ''en'' \<in> fst ` set [(''en'', ''f9''), (''de'', '' f10 '')] \<and>
   map_option lang_model (map_of (languages (load_config example_source)) ''en'') = Some ''base.en'' \<and>
   ''de'' \<in> fst ` set [(''en'', ''f9''), (''de'', '' f10 '')] \<and>
   map_option lang_model (map_of (languages (load_config example_source)) ''de'') = Some ''base'' \<and>
   ''fr'' \<notin> fst ` set [(''en'', ''f9''), (''de'', '' f10 '')] \<and>
   map_of (languages (load_config example_source)) ''fr'' = None \<and>
   languages_section (settings (Some ''small'') None) = None \<and>
   languages (load_config (settings (Some ''small'') None)) =
     [(''auto'', \<lparr>lang_key = ''f12'', lang_model = ''small''\<rparr>)]"
proof -
  have sec: "languages_section example_source = Some [(''en'', ''f9''), (''de'', '' f10 '')]"
    and base: "fallback (whisper_model_size example_source) ''base'' = ''base''"
    by (simp_all add: example_source_def fallback_def)
  have none: "languages_section (settings (Some ''small'') None) = None"
    and small: "fallback (whisper_model_size (settings (Some ''small'') None)) ''base'' = ''small''"
    and f12: "fallback (hotkey_key (settings (Some ''small'') None)) ''f12'' = ''f12''"
    by (simp_all add: settings_def fallback_def)
  have en: "map_option lang_model (map_of (languages (load_config example_source)) ''en'') = Some ''base.en''"
    using load_config_model
      [where src = example_source and items = "[(''en'', ''f9''), (''de'', '' f10 '')]" and lang = "''en''"]
      sec base
    by simp
  have de: "map_option lang_model (map_of (languages (load_config example_source)) ''de'') = Some ''base''"
    using load_config_model
      [where src = example_source and items = "[(''en'', ''f9''), (''de'', '' f10 '')]" and lang = "''de''"]
      sec base
    by simp
  have fr: "map_of (languages (load_config example_source)) ''fr'' = None"
    using load_config_model
      [where src = example_source and items = "[(''en'', ''f9''), (''de'', '' f10 '')]" and lang = "''fr''"]
      sec
    by simp
  have auto: "languages (load_config (settings (Some ''small'') None)) =
     [(''auto'', \<lparr>lang_key = ''f12'', lang_model = ''small''\<rparr>)]"
    using load_config_model [where src = "settings (Some ''small'') None"] none small f12
    by simp
  show ?thesis
    using sec en de fr none auto by simp
qed

text \<open>
  Claim C6. The transcript is the segments' texts, each trimmed, joined in their order
  with single spaces; the segments \<open>"  hello "\<close> and \<open>"world "\<close> give \<open>"hello world"\<close>.
\<close>

theorem transcript_trim_join:
  "transcript_of segments = spec_join_spaces (map spec_trim segments) \<and>
   transcript_of [''  hello '', ''world ''] = ''hello world''"
proof
  have "py_strip = spec_trim"
    by (rule ext) (rule py_strip_spec)
  then show "transcript_of segments = spec_join_spaces (map spec_trim segments)"
    by (simp add: transcript_of_def py_join_concat spec_join_spaces_def)
  show "transcript_of [''  hello '', ''world ''] = ''hello world''"
    by code_simp
qed

text \<open>
  The empty name (a binding such as \<open>en =\<close>) has no attribute in the enumeration and is
  not one character long: it is resolved to the \<open>f12\<close> default, and it is not a
  multi-character name.
\<close>

theorem f12_fallback_not_only_multi_character_counterexample:
  "snd (snd (get_hotkey function_keys [])) = Defaulted \<and>
   fst (get_hotkey function_keys []) = AKey (Key ''f12'') \<and>
   function_keys (py_lower []) = None \<and>
   \<not> 1 < length (py_lower [])"
  by (simp add: get_hotkey_def function_keys_def py_lower_def)

text \<open>
  Claim C10, amended. After lowercasing, a name of one character that matches no named
  key (the enumeration has no attribute of that name) is resolved to that character's
  key, and no name of one character is resolved by the \<open>f12\<close> default; the \<open>f12\<close> default
  is substituted only for names that match no named key and are not one character long:
  multi-character names, and also the empty name. A name of another attribute of the
  enumeration gets that attribute, not the default.
\<close>

theorem get_hotkey_resolution:
  "(attribute (py_lower key_name) = None \<and> length (py_lower key_name) = 1 \<longrightarrow>
      get_hotkey attribute key_name = (AKey (KeyCode (hd (py_lower key_name))), [], FromChar) \<and>
      fst (get_hotkey attribute key_name) \<noteq> AKey (Key ''f12'')) \<and>
   (length (py_lower key_name) = 1 \<longrightarrow>
      snd (snd (get_hotkey attribute key_name)) \<noteq> Defaulted) \<and>
   (snd (snd (get_hotkey attribute key_name)) = Defaulted \<longrightarrow>
      attribute (py_lower key_name) = None \<and> length (py_lower key_name) \<noteq> 1 \<and>
      fst (get_hotkey attribute key_name) = AKey (Key ''f12''))"
  by (auto simp: get_hotkey_def Let_def split: option.splits)

theorem get_hotkey_resolution_witness:
  "function_keys (py_lower ''A'') = None \<and> length (py_lower ''A'') = 1 \<and>
   get_hotkey function_keys ''A'' = (AKey (KeyCode CHR ''a''), [], FromChar) \<and>
   snd (snd (get_hotkey function_keys ''Bogus'')) = Defaulted \<and>
   function_keys (py_lower ''Bogus'') = None \<and> length (py_lower ''Bogus'') = 5 \<and>
   fst (get_hotkey function_keys ''Bogus'') = AKey (Key ''f12'') \<and>
   get_hotkey function_keys ''mro'' = (NonKey ''mro'', [], Named)"
proof -
  have a: "function_keys (py_lower ''A'') = None" and b: "length (py_lower ''A'') = 1"
    and c: "hd (py_lower ''A'') = CHR ''a''"
    and d: "length (py_lower ''Bogus'') = 5"
    and e: "snd (snd (get_hotkey function_keys ''Bogus'')) = Defaulted"
    and f: "get_hotkey function_keys ''mro'' = (NonKey ''mro'', [], Named)"
    by code_simp+
  have "get_hotkey function_keys ''A'' = (AKey (KeyCode CHR ''a''), [], FromChar)"
    using get_hotkey_resolution [of function_keys "''A''"] a b c by simp
  moreover have "function_keys (py_lower ''Bogus'') = None \<and>
      fst (get_hotkey function_keys ''Bogus'') = AKey (Key ''f12'')"
    using get_hotkey_resolution [of function_keys "''Bogus''"] e by simp
  ultimately show ?thesis
    using a b d e f by simp
qed

section \<open>Reports, and the shape of \<open>stop_recording\<close>\<close>

lemma reportsI:
  "session s' = session s \<Longrightarrow> trace s' = trace s @ evs \<Longrightarrow> list_all quiet evs \<Longrightarrow> reports s s'"
  by (simp add: reports_def new_events_def)

lemma reportsD:
  assumes "reports s s'"
  shows "session s' = session s" and "trace s' = trace s @ new_events s s'"
    and "list_all quiet (new_events s s')"
proof -
  show "session s' = session s" and "list_all quiet (new_events s s')"
    using assms by (simp_all add: reports_def)
  have "take (length (trace s)) (trace s') = trace s"
    using assms by (simp add: reports_def)
  then show "trace s' = trace s @ new_events s s'"
    unfolding new_events_def by (metis append_take_drop_id)
qed

lemma reports_refl: "reports s s"
  by (simp add: reports_def new_events_def)

lemma reports_trans:
  assumes "reports s s'" and "reports s' s''"
  shows "reports s s''"
proof (rule reportsI)
  show "session s'' = session s"
    using reportsD(1) [OF assms(1)] reportsD(1) [OF assms(2)] by simp
  show "trace s'' = trace s @ (new_events s s' @ new_events s' s'')"
    using reportsD(2) [OF assms(1)] reportsD(2) [OF assms(2)] by simp
  show "list_all quiet (new_events s s' @ new_events s' s'')"
    using reportsD(3) [OF assms(1)] reportsD(3) [OF assms(2)] by simp
qed

lemma reports_emit: "quiet ev \<Longrightarrow> reports s (emit ev s)"
  by (rule reportsI [where evs = "[ev]"]) (simp_all add: session_def emit_def)

lemma reports_print: "reports s (py_print line s)"
  by (simp add: py_print_def reports_emit)

lemma reports_notify: "reports s (notify e title message icon timeout s)"
  by (simp add: notify_def reports_emit reports_refl)

lemma reports_acquire: "reports s (snd (get_or_load_model k s))"
proof (cases "map_of (models s) k")
  case None
  then show ?thesis
    by (intro reportsI [where evs = "[ThreadStart k]"])
      (simp_all add: get_or_load_model_def Let_def emit_def session_def)
next
  case (Some r)
  then show ?thesis
    by (simp add: get_or_load_model_def reports_refl)
qed

lemma reports_heap: "reports s s' \<Longrightarrow> reports s (s'\<lparr>heap := h\<rparr>)"
  by (simp add: reports_def session_def new_events_def)

lemma reports_threads: "reports s s' \<Longrightarrow> reports s (s'\<lparr>threads := ts\<rparr>)"
  by (simp add: reports_def session_def new_events_def)

lemma reports_load_failed: "reports s (load_failed k msg s)"
  unfolding load_failed_def Let_def
  by (auto intro: reports_print reports_trans)

lemma reports_load_model_step: "reports s (snd (load_model_step e t s))"
proof (cases t)
  case (Started k)
  show ?thesis
  proof (cases "map_of (models s) k")
    case None
    then show ?thesis
      using Started by (simp add: reports_refl)
  next
    case (Some r)
    let ?s1 = "py_print (''Loading Whisper model ('' @ py_str k @ '')...'') s"
    have 1: "reports s ?s1"
      by (rule reports_print)
    show ?thesis
    proof (cases "WhisperModel e k (DEVICE e) (COMPUTE_TYPE e)")
      case (Inl msg)
      have "reports s (load_failed k msg (?s1\<lparr>heap := (heap ?s1)(r := (heap ?s1 r)\<lparr>error := Some msg\<rparr>)\<rparr>))"
        by (rule reports_trans [OF reports_heap [OF 1] reports_load_failed])
      then show ?thesis
        using Started Some Inl by (simp add: Let_def)
    next
      case (Inr m)
      have "reports s (py_print (''Model '' @ py_str k @ '' loaded.'')
              (?s1\<lparr>heap := (heap ?s1)(r := (heap ?s1 r)\<lparr>model := Some m\<rparr>)\<rparr>))"
        by (rule reports_trans [OF reports_heap [OF 1] reports_print])
      then show ?thesis
        using Started Some Inr by (simp add: Let_def)
    qed
  qed
next
  case (Constructed k r)
  then show ?thesis
    by (simp add: reports_heap [OF reports_refl])
next
  case (Finished k)
  then show ?thesis by (simp add: reports_refl)
next
  case (Crashed k)
  then show ?thesis by (simp add: reports_refl)
qed

lemma reports_step_thread: "reports s (step_thread e i s)"
  unfolding step_thread_def
  by (auto simp: case_prod_unfold Let_def reports_refl
      intro: reports_threads reports_load_model_step)

lemma reports_wait_loaded: "wait_loaded e r s = Some s' \<Longrightarrow> reports s s'"
  unfolding wait_loaded_def
  by (auto simp: Let_def reports_refl split: if_splits option.splits
      intro: reports_trans [OF reports_step_thread reports_step_thread])


lemma load_model_step_models: "models (snd (load_model_step e t s)) = models s"
  by (cases t)
    (auto simp: Let_def py_print_def emit_def load_failed_def split: option.splits sum.splits)

lemma step_thread_models: "models (step_thread e i s) = models s"
  by (simp add: step_thread_def case_prod_unfold Let_def load_model_step_models)

lemma wait_loaded_models: "wait_loaded e r s = Some s' \<Longrightarrow> models s' = models s"
  by (auto simp: wait_loaded_def Let_def step_thread_models split: if_splits option.splits)










lemma reports_handle: "reports s (handle_exception e exn s)"
  unfolding handle_exception_def
  by (auto split: option.splits intro: reports_refl reports_trans [OF reports_print reports_notify])

lemma deliver_prefix:
  "trace (fst (deliver e text s)) = trace s @ new_events s (fst (deliver e text s))"
  by (simp add: deliver_def new_events_def emit_def notify_def py_print_def Let_def
      split: option.splits)

lemma deliver_session: "session (fst (deliver e text s)) = session s"
  by (simp add: deliver_def session_def emit_def notify_def py_print_def Let_def
      split: option.splits)

lemma transcribe_prefix:
  "trace (fst (transcribe_and_deliver e info s)) =
     trace s @ new_events s (fst (transcribe_and_deliver e info s))"
  by (simp add: transcribe_and_deliver_def deliver_def new_events_def emit_def notify_def
      py_print_def Let_def split: sum.splits option.splits)


lemma cleanup_trace:
  "trace (cleanup s) =
     trace s @ (case temp_file s of None \<Rightarrow> []
                | Some p \<Rightarrow> if p \<in> set (files s) then [Unlink p] else [])"
  by (simp add: cleanup_def emit_def split: option.splits)

lemma cleanup_files:
  "files (cleanup s) = (case temp_file s of None \<Rightarrow> files s | Some p \<Rightarrow> removeAll p (files s))"
  by (simp add: cleanup_def emit_def split: option.splits)


text \<open>
  What \<open>stop_recording\<close> does when a recording is active: it ends the capture and waits
  for the model, which only reports; then it either reports that the model failed, or
  transcribes, handles the exception and cleans up.
\<close>

lemma stop_recording_cases:
  assumes "stop_recording e s = Some s'" and "recording s"
  obtains s5 r where "reports (s\<lparr>recording := False, record_process := None\<rparr>) s5"
    and "map_of (models s5) (active_model_name s) = Some r"
    and "s' =
      (if truthy (error (heap s5 r))
       then notify e ''Error'' ''Model failed to load'' ''dialog-error'' 3000
              (py_print ''Cannot transcribe: model failed to load'' s5)
       else cleanup (handle_exception e (snd (transcribe_and_deliver e (heap s5 r) s5))
              (fst (transcribe_and_deliver e (heap s5 r) s5))))"
proof -
  define s0 where "s0 = s\<lparr>recording := False, record_process := None\<rparr>"
  define s2 where "s2 =
    (case record_process s of
       Some p \<Rightarrow> (emit (Terminate p) (s\<lparr>recording := False\<rparr>))\<lparr>record_process := None\<rparr>
     | None \<Rightarrow> s\<lparr>recording := False\<rparr>)"
  define s3 where "s3 = notify e ''Transcribing...'' ''Processing your speech''
    ''emblem-synchronizing'' 30000 (py_print ''Transcribing...'' s2)"
  define r where "r = fst (get_or_load_model (active_model_name s3) s3)"
  define s4 where "s4 = snd (get_or_load_model (active_model_name s3) s3)"
  have 02: "reports s0 s2"
    by (cases "record_process s")
      (simp_all add: s0_def s2_def reports_def session_def new_events_def emit_def)
  have 23: "reports s2 s3"
    unfolding s3_def by (rule reports_trans [OF reports_print reports_notify])
  have 34: "reports s3 s4"
    unfolding s4_def by (rule reports_acquire)
  have 04: "reports s0 s4"
    by (rule reports_trans [OF reports_trans [OF 02 23] 34])
  have name: "active_model_name s3 = active_model_name s"
    using reportsD(1) [OF reports_trans [OF 02 23]] by (simp add: session_def s0_def)
  have entry: "map_of (models s4) (active_model_name s) = Some r"
    unfolding r_def s4_def name
    by (simp add: get_or_load_model_def Let_def emit_def map_of_dict_set split: option.splits)
  have eq: "stop_recording e s =
    (case wait_loaded e r s4 of
       None \<Rightarrow> None
     | Some s5 \<Rightarrow>
         Some (if truthy (error (heap s5 r))
               then notify e ''Error'' ''Model failed to load'' ''dialog-error'' 3000
                      (py_print ''Cannot transcribe: model failed to load'' s5)
               else cleanup (handle_exception e (snd (transcribe_and_deliver e (heap s5 r) s5))
                      (fst (transcribe_and_deliver e (heap s5 r) s5)))))"
    using assms(2)
    by (simp add: stop_recording_def Let_def s2_def s3_def r_def s4_def split: option.splits)
  from assms(1) eq obtain s5 where w: "wait_loaded e r s4 = Some s5"
    and s': "s' =
      (if truthy (error (heap s5 r))
       then notify e ''Error'' ''Model failed to load'' ''dialog-error'' 3000
              (py_print ''Cannot transcribe: model failed to load'' s5)
       else cleanup (handle_exception e (snd (transcribe_and_deliver e (heap s5 r) s5))
              (fst (transcribe_and_deliver e (heap s5 r) s5))))"
    by (auto split: option.splits)
  have 05: "reports s0 s5"
    by (rule reports_trans [OF 04 reports_wait_loaded [OF w]])
  have "models s5 = models s4"
    using w by (rule wait_loaded_models)
  then have "map_of (models s5) (active_model_name s) = Some r"
    using entry by simp
  then show ?thesis
    using that 05 s' unfolding s0_def by blast
qed


lemma quiet_silent: "list_all quiet evs \<Longrightarrow> list_all silent evs"
  by (induction evs) (auto elim: quiet.elims)




text \<open>
  The events of a \<open>stop_recording\<close> that returns: silent ones, then those of the
  transcription and the delivery unless the model failed, then silent ones.
\<close>

lemma stop_recording_events:
  assumes "stop_recording e s = Some s'" and "recording s"
  obtains s5 r q1 q2 where "reports (s\<lparr>recording := False, record_process := None\<rparr>) s5"
    and "new_events s s' =
      q1 @ (if truthy (error (heap s5 r)) then []
            else new_events s5 (fst (transcribe_and_deliver e (heap s5 r) s5))) @ q2"
    and "list_all silent q1" and "list_all silent q2"
proof -
  from assms obtain s5 r where 5: "reports (s\<lparr>recording := False, record_process := None\<rparr>) s5"
    and s': "s' =
      (if truthy (error (heap s5 r))
       then notify e ''Error'' ''Model failed to load'' ''dialog-error'' 3000
              (py_print ''Cannot transcribe: model failed to load'' s5)
       else cleanup (handle_exception e (snd (transcribe_and_deliver e (heap s5 r) s5))
              (fst (transcribe_and_deliver e (heap s5 r) s5))))"
    by (rule stop_recording_cases)
  define q1 where "q1 = new_events (s\<lparr>recording := False, record_process := None\<rparr>) s5"
  have t5: "trace s5 = trace s @ q1" and q1: "list_all silent q1"
    using reportsD(2,3) [OF 5] by (simp_all add: q1_def quiet_silent)
  show ?thesis
  proof (cases "truthy (error (heap s5 r))")
    case True
    define q2 where "q2 = new_events s5 s'"
    have "reports s5 s'"
      using True s' by (simp add: reports_trans [OF reports_print reports_notify])
    then have t': "trace s' = trace s5 @ q2" and q2: "list_all silent q2"
      unfolding q2_def by (simp_all add: reportsD quiet_silent)
    have "new_events s s' = q1 @ [] @ q2"
      unfolding new_events_def t' t5 by simp
    then have eq: "new_events s s' =
      q1 @ (if truthy (error (heap s5 r)) then []
            else new_events s5 (fst (transcribe_and_deliver e (heap s5 r) s5))) @ q2"
      using True by simp
    show ?thesis
      by (rule that [OF 5 eq q1 q2])
  next
    case False
    define s6 where "s6 = fst (transcribe_and_deliver e (heap s5 r) s5)"
    define s7 where "s7 = handle_exception e (snd (transcribe_and_deliver e (heap s5 r) s5)) s6"
    define m where "m = new_events s5 s6"
    define q3 where "q3 = new_events s6 s7"
    have t6: "trace s6 = trace s5 @ m"
      unfolding s6_def m_def by (rule transcribe_prefix)
    have 67: "reports s6 s7"
      unfolding s7_def by (rule reports_handle)
    have t7: "trace s7 = trace s6 @ q3" and q3: "list_all silent q3"
      unfolding q3_def using reportsD(2,3) [OF 67] by (simp_all add: quiet_silent)
    have s'7: "s' = cleanup s7"
      using False s' by (simp add: s6_def s7_def)
    define u where "u = (case temp_file s7 of None \<Rightarrow> []
      | Some p \<Rightarrow> if p \<in> set (files s7) then [Unlink p] else [])"
    have t': "trace s' = trace s7 @ u"
      unfolding s'7 u_def by (rule cleanup_trace)
    have u: "list_all silent u"
      by (simp add: u_def split: option.splits)
    have q2: "list_all silent (q3 @ u)"
      using q3 u by simp
    have "new_events s s' = q1 @ m @ (q3 @ u)"
      unfolding new_events_def t' t7 t6 t5 by simp
    then have eq: "new_events s s' =
      q1 @ (if truthy (error (heap s5 r)) then []
            else new_events s5 (fst (transcribe_and_deliver e (heap s5 r) s5))) @ (q3 @ u)"
      using False by (simp add: m_def s6_def)
    show ?thesis
      by (rule that [OF 5 eq q1 q2])
  qed
qed

lemma transcribe_hint:
  "Transcribe engine p h \<in> set (new_events s (fst (transcribe_and_deliver e info s))) \<Longrightarrow>
     language_kwarg (active_language s) (active_model_name s) = Inr h"
  by (auto simp: transcribe_and_deliver_def deliver_def new_events_def emit_def notify_def
      py_print_def Let_def split: sum.splits option.splits if_splits)

lemma transcribe_delivery:
  assumes "Xclip t \<in> set (new_events s (fst (transcribe_and_deliver e info s))) \<or>
           Xdotool t \<in> set (new_events s (fst (transcribe_and_deliver e info s)))"
  shows "t \<noteq> [] \<and>
     (\<exists>engine p language segments.
        Transcribe engine p language \<in> set (new_events s (fst (transcribe_and_deliver e info s))) \<and>
        transcribe e engine p language = Inr segments \<and> t = transcript_of segments)"
  using assms
  by (auto simp: transcribe_and_deliver_def deliver_def new_events_def emit_def notify_def
      py_print_def Let_def split: sum.splits option.splits if_splits)

lemma transcribe_no_speech:
  assumes "Transcribe engine p language \<in> set (new_events s (fst (transcribe_and_deliver e info s)))"
    and "transcribe e engine p language = Inr segments" and "transcript_of segments = []"
  shows "Print ''No speech detected'' \<in> set (new_events s (fst (transcribe_and_deliver e info s))) \<and>
     Xclip t \<notin> set (new_events s (fst (transcribe_and_deliver e info s))) \<and>
     Xdotool t \<notin> set (new_events s (fst (transcribe_and_deliver e info s)))"
  using assms
  by (auto simp: transcribe_and_deliver_def deliver_def new_events_def emit_def notify_def
      py_print_def Let_def split: sum.splits option.splits if_splits)

lemma silent_member: "list_all silent q \<Longrightarrow> \<not> silent ev \<Longrightarrow> ev \<notin> set q"
  by (auto simp: list_all_iff)

lemma hotkeys_example:
  "HOTKEY_TO_LANG example_env = [(AKey (Key ''f9''), ''en'', ''base.en''), (AKey (Key ''f10''), ''de'', ''base'')]"
  by code_simp

lemma env_example:
  "NOTIFICATIONS example_env" "AUTO_TYPE example_env"
  "DEVICE example_env = ''cpu''" "COMPUTE_TYPE example_env = ''int8''"
  "WhisperModel example_env = (\<lambda>model_name d c. Inr 1)"
  "transcribe example_env = (\<lambda>engine p language. Inr [''  hello '', ''world ''])"
  "xclip example_env = (\<lambda>text. None)" "xdotool example_env = (\<lambda>text. None)"
  by (simp_all add: example_env_def module_env_def load_config_def fallback_def example_source_def Let_def)

lemmas controller_defs =
  on_press_def on_release_def start_recording_def stop_recording_def get_or_load_model_def
  wait_loaded_def step_thread_def sets_event_def emit_def py_print_def notify_def
  transcribe_and_deliver_def deliver_def handle_exception_def cleanup_def truthy_def
  language_kwarg_def load_failed_def py_str_def Let_def

section \<open>The examples, evaluated\<close>

lemma transcript_example: "transcript_of [''  hello '', ''world ''] = ''hello world''"
  by code_simp

lemma hotkeys_failing:
  "HOTKEY_TO_LANG failing_env = [(AKey (Key ''f9''), ''en'', ''base.en''), (AKey (Key ''f10''), ''de'', ''base'')]"
  by (simp add: failing_env_def hotkeys_example)

lemma env_failing:
  "NOTIFICATIONS failing_env" "AUTO_TYPE failing_env"
  "DEVICE failing_env = ''cpu''" "COMPUTE_TYPE failing_env = ''int8''"
  "WhisperModel failing_env = (\<lambda>model_name d c. Inl ''CUDA driver not found'')"
  by (simp_all add: failing_env_def env_example)

lemma cuda_hint:
  "py_contains ''cuda'' (py_lower ''CUDA driver not found'')"
  by code_simp

lemmas example_facts =
  controller_defs hotkeys_example env_example hotkeys_failing env_failing cuda_hint
  transcript_example py_endswith_def init_def exec_def new_events_def

section \<open>The session gate\<close>

text \<open>
  Claim C7. \<open>start_recording\<close> while a recording is in progress changes nothing: the whole
  state is the same, so no capture process is spawned and the active language, the
  active model and the temporary file keep their values. \<open>stop_recording\<close> while no
  recording is in progress returns at once with the state unchanged: no process is
  terminated, nothing is deleted, no event is added.
\<close>

theorem session_gating:
  "(recording s \<longrightarrow> start_recording e language model_name k s = s) \<and>
   (\<not> recording s \<longrightarrow> stop_recording e s = Some s)"
  by (simp add: start_recording_def stop_recording_def)

theorem session_gating_witness:
  "recording (on_press example_env (Key ''f9'') init) \<and>
   start_recording example_env ''de'' ''base'' (Key ''f10'') (on_press example_env (Key ''f9'') init) =
     on_press example_env (Key ''f9'') init \<and>
   \<not> recording init \<and> stop_recording example_env init = Some init"
proof -
  have 1: "recording (on_press example_env (Key ''f9'') init)"
    by (simp add: example_facts)
  have 2: "\<not> recording init"
    by (simp add: init_def)
  show ?thesis
    using session_gating [of "on_press example_env (Key ''f9'') init" example_env "''de''" "''base''" "Key ''f10''"]
      session_gating [of init example_env] 1 2
    by simp
qed




section \<open>The temporary file\<close>

text \<open>
  Claim C2 fails on the code. When the model's entry holds an error, \<open>stop_recording\<close>
  returns at line 227, before the \<open>try\<close> whose \<open>finally\<close> deletes the file: after a press
  and a release with an engine that fails to load, the temporary file 0 still exists and
  was never unlinked. With an engine that loads, the same events delete it.
\<close>

theorem failed_model_keeps_temp_file:
  "map_option (\<lambda>s. (temp_file s, files s, Unlink 0 \<in> set (trace s)))
     (run failing_env [Press (Key ''f9''), Release (Key ''f9'')] init) = Some (Some 0, [0], False) \<and>
   map_option (\<lambda>s. (temp_file s, files s, Unlink 0 \<in> set (trace s)))
     (run example_env [Press (Key ''f9''), Release (Key ''f9'')] init) = Some (Some 0, [], True)"
  by (simp add: example_facts)

text \<open>
  Claim C8 fails on the code, by the same early return: with an engine that fails to
  load, the second session starts (capture on file 1) while the first session's file 0
  is still there, and it is never unlinked.
\<close>

theorem next_session_before_cleanup:
  "map_option (\<lambda>s. (recording s, temp_file s, files s, Arecord 1 \<in> set (trace s),
                     Unlink 0 \<in> set (trace s)))
     (run failing_env [Press (Key ''f9''), Release (Key ''f9''), Press (Key ''f9'')] init) =
   Some (True, Some 1, [1, 0], True, False)"
  by (simp add: example_facts)

section \<open>Transcription and delivery\<close>

lemma hotkeys_silent:
  "HOTKEY_TO_LANG silent_env = [(AKey (Key ''f9''), ''en'', ''base.en''), (AKey (Key ''f10''), ''de'', ''base'')]"
  by (simp add: silent_env_def hotkeys_example)

lemma env_silent:
  "NOTIFICATIONS silent_env" "AUTO_TYPE silent_env"
  "DEVICE silent_env = ''cpu''" "COMPUTE_TYPE silent_env = ''int8''"
  "WhisperModel silent_env = (\<lambda>model_name d c. Inr 1)"
  "transcribe silent_env = (\<lambda>engine p language. Inr [])"
  "xclip silent_env = (\<lambda>text. None)" "xdotool silent_env = (\<lambda>text. None)"
  by (simp_all add: silent_env_def env_example)

lemma transcript_nothing: "transcript_of [] = []"
  by (simp add: transcript_of_def)

lemma stop_recording_transcribe:
  assumes "stop_recording e s = Some s'"
    and "Transcribe engine p h \<in> set (new_events s s')"
  obtains s5 r where "reports (s\<lparr>recording := False, record_process := None\<rparr>) s5"
    and "Transcribe engine p h \<in> set (new_events s5 (fst (transcribe_and_deliver e (heap s5 r) s5)))"
    and "set (new_events s5 (fst (transcribe_and_deliver e (heap s5 r) s5))) \<subseteq> set (new_events s s')"
    and "\<And>ev. ev \<in> set (new_events s s') \<Longrightarrow> \<not> silent ev \<Longrightarrow>
           ev \<in> set (new_events s5 (fst (transcribe_and_deliver e (heap s5 r) s5)))"
proof -
  have rec: "recording s"
  proof (rule ccontr)
    assume "\<not> recording s"
    then have "s' = s"
      using assms(1) by (simp add: stop_recording_def)
    then show False
      using assms(2) by (simp add: new_events_def)
  qed
  from assms(1) rec obtain s5 r q1 q2
    where 5: "reports (s\<lparr>recording := False, record_process := None\<rparr>) s5"
      and ev: "new_events s s' =
        q1 @ (if truthy (error (heap s5 r)) then []
              else new_events s5 (fst (transcribe_and_deliver e (heap s5 r) s5))) @ q2"
      and q1: "list_all silent q1" and q2: "list_all silent q2"
    by (rule stop_recording_events)
  have out: "ev' \<notin> set q1 \<and> ev' \<notin> set q2" if "\<not> silent ev'" for ev'
    using that q1 q2 by (simp add: silent_member)
  have ok: "\<not> truthy (error (heap s5 r))"
  proof
    assume "truthy (error (heap s5 r))"
    then have "Transcribe engine p h \<in> set q1 \<union> set q2"
      using assms(2) ev by simp
    then show False
      using out [of "Transcribe engine p h"] by simp
  qed
  have 1: "Transcribe engine p h \<in> set (new_events s5 (fst (transcribe_and_deliver e (heap s5 r) s5)))"
    using assms(2) ev ok out [of "Transcribe engine p h"] by simp
  have 2: "set (new_events s5 (fst (transcribe_and_deliver e (heap s5 r) s5))) \<subseteq> set (new_events s s')"
    using ev ok by auto
  have 3: "ev' \<in> set (new_events s5 (fst (transcribe_and_deliver e (heap s5 r) s5)))"
    if "ev' \<in> set (new_events s s')" and "\<not> silent ev'" for ev'
    using that ev ok out [of ev'] by simp
  show ?thesis
    by (rule that [OF 5 1 2 3])
qed

lemma stop_recording_delivery:
  assumes "stop_recording e s = Some s'"
    and "Xclip t \<in> set (new_events s s') \<or> Xdotool t \<in> set (new_events s s')"
  shows "t \<noteq> [] \<and>
     (\<exists>engine p language segments.
        Transcribe engine p language \<in> set (new_events s s') \<and>
        transcribe e engine p language = Inr segments \<and> t = transcript_of segments)"
proof -
  have rec: "recording s"
  proof (rule ccontr)
    assume "\<not> recording s"
    then have "s' = s"
      using assms(1) by (simp add: stop_recording_def)
    then show False
      using assms(2) by (simp add: new_events_def)
  qed
  from assms(1) rec obtain s5 r q1 q2
    where ev: "new_events s s' =
        q1 @ (if truthy (error (heap s5 r)) then []
              else new_events s5 (fst (transcribe_and_deliver e (heap s5 r) s5))) @ q2"
      and q1: "list_all silent q1" and q2: "list_all silent q2"
    by (rule stop_recording_events)
  have out: "ev' \<notin> set q1 \<and> ev' \<notin> set q2" if "\<not> silent ev'" for ev'
    using that q1 q2 by (simp add: silent_member)
  have ok: "\<not> truthy (error (heap s5 r))"
    using assms(2) ev out [of "Xclip t"] out [of "Xdotool t"] by auto
  have "Xclip t \<in> set (new_events s5 (fst (transcribe_and_deliver e (heap s5 r) s5))) \<or>
        Xdotool t \<in> set (new_events s5 (fst (transcribe_and_deliver e (heap s5 r) s5)))"
    using assms(2) ev ok out [of "Xclip t"] out [of "Xdotool t"] by auto
  then have "t \<noteq> [] \<and>
     (\<exists>engine p language segments.
        Transcribe engine p language \<in> set (new_events s5 (fst (transcribe_and_deliver e (heap s5 r) s5))) \<and>
        transcribe e engine p language = Inr segments \<and> t = transcript_of segments)"
    by (rule transcribe_delivery)
  then show ?thesis
    using ev ok by auto
qed

text \<open>
  Claim C9. With the empty transcript, the delivery (lines 247 to 263) prints
  \<open>No speech detected\<close>, sends the notification of that title when notifications are
  enabled, raises nothing and calls neither the clipboard nor the typing command. In a
  \<open>stop_recording\<close> whose engine call gave an empty transcript the event is there and no
  clipboard or typing call is; and whatever text a \<open>stop_recording\<close> sends to the
  clipboard or types is the non-empty transcript of the segments the engine returned.
\<close>

theorem empty_transcript_no_delivery:
  "trace (fst (deliver e [] s)) =
     trace s @ Print ''No speech detected'' #
       (if NOTIFICATIONS e
        then [NotifySend ''No speech detected'' ''Try speaking louder'' ''dialog-warning'' 2000]
        else []) \<and>
   snd (deliver e [] s) = None \<and>
   (stop_recording e s = Some s' \<and> Transcribe engine p language \<in> set (new_events s s') \<and>
    transcribe e engine p language = Inr segments \<and> transcript_of segments = [] \<longrightarrow>
      Print ''No speech detected'' \<in> set (new_events s s') \<and>
      (\<forall>t. Xclip t \<notin> set (new_events s s') \<and> Xdotool t \<notin> set (new_events s s'))) \<and>
   (stop_recording e s = Some s' \<and>
    (Xclip t \<in> set (new_events s s') \<or> Xdotool t \<in> set (new_events s s')) \<longrightarrow>
      t \<noteq> [] \<and>
      (\<exists>engine p language segments.
         Transcribe engine p language \<in> set (new_events s s') \<and>
         transcribe e engine p language = Inr segments \<and> t = transcript_of segments))"
proof (intro conjI impI allI)
  show "trace (fst (deliver e [] s)) =
     trace s @ Print ''No speech detected'' #
       (if NOTIFICATIONS e
        then [NotifySend ''No speech detected'' ''Try speaking louder'' ''dialog-warning'' 2000]
        else [])"
    by (simp add: deliver_def notify_def py_print_def emit_def)
  show "snd (deliver e [] s) = None"
    by (simp add: deliver_def)
next
  assume a: "stop_recording e s = Some s' \<and> Transcribe engine p language \<in> set (new_events s s') \<and>
    transcribe e engine p language = Inr segments \<and> transcript_of segments = []"
  then obtain s5 r
    where 1: "Transcribe engine p language \<in> set (new_events s5 (fst (transcribe_and_deliver e (heap s5 r) s5)))"
      and 2: "set (new_events s5 (fst (transcribe_and_deliver e (heap s5 r) s5))) \<subseteq> set (new_events s s')"
      and 3: "\<And>ev. ev \<in> set (new_events s s') \<Longrightarrow> \<not> silent ev \<Longrightarrow>
           ev \<in> set (new_events s5 (fst (transcribe_and_deliver e (heap s5 r) s5)))"
    by (auto elim: stop_recording_transcribe)
  have none: "Print ''No speech detected'' \<in> set (new_events s5 (fst (transcribe_and_deliver e (heap s5 r) s5))) \<and>
     Xclip t \<notin> set (new_events s5 (fst (transcribe_and_deliver e (heap s5 r) s5))) \<and>
     Xdotool t \<notin> set (new_events s5 (fst (transcribe_and_deliver e (heap s5 r) s5)))" for t
    using 1 a by (intro transcribe_no_speech) auto
  show "Print ''No speech detected'' \<in> set (new_events s s')"
    using none 2 by auto
  show "Xclip t \<notin> set (new_events s s')" for t
    using none [of t] 3 [of "Xclip t"] by auto
  show "Xdotool t \<notin> set (new_events s s')" for t
    using none [of t] 3 [of "Xdotool t"] by auto
next
  assume a: "stop_recording e s = Some s' \<and>
    (Xclip t \<in> set (new_events s s') \<or> Xdotool t \<in> set (new_events s s'))"
  then have b: "t \<noteq> [] \<and>
     (\<exists>engine p language segments.
        Transcribe engine p language \<in> set (new_events s s') \<and>
        transcribe e engine p language = Inr segments \<and> t = transcript_of segments)"
    using stop_recording_delivery [of e s s' t] by blast
  show "t \<noteq> []"
    using b by simp
  show "\<exists>engine p language segments.
         Transcribe engine p language \<in> set (new_events s s') \<and>
         transcribe e engine p language = Inr segments \<and> t = transcript_of segments"
    using b by simp
qed


theorem empty_transcript_no_delivery_witness:
  "map_option
     (\<lambda>s'. Transcribe 1 0 None \<in> set (new_events (on_press silent_env (Key ''f9'') init) s') \<and>
           Print ''No speech detected'' \<in> set (new_events (on_press silent_env (Key ''f9'') init) s') \<and>
           Xclip [] \<notin> set (new_events (on_press silent_env (Key ''f9'') init) s'))
     (stop_recording silent_env (on_press silent_env (Key ''f9'') init)) = Some True \<and>
   transcribe silent_env 1 0 None = Inr [] \<and> transcript_of [] = [] \<and>
   map_option
     (\<lambda>s'. Xclip ''hello world'' \<in> set (new_events (on_press example_env (Key ''f9'') init) s'))
     (stop_recording example_env (on_press example_env (Key ''f9'') init)) = Some True \<and>
   ''hello world'' \<noteq> []"
proof -
  let ?s = "on_press silent_env (Key ''f9'') init"
  let ?x = "on_press example_env (Key ''f9'') init"
  have "map_option (\<lambda>s'. Transcribe 1 0 None \<in> set (new_events ?s s'))
          (stop_recording silent_env ?s) = Some True"
    by (simp add: example_facts hotkeys_silent env_silent transcript_nothing)
  then obtain s' where st: "stop_recording silent_env ?s = Some s'"
    and tr: "Transcribe 1 0 None \<in> set (new_events ?s s')"
    by (cases "stop_recording silent_env ?s") auto
  have eng: "transcribe silent_env 1 0 None = Inr []"
    by (simp add: env_silent)
  have quiet: "Print ''No speech detected'' \<in> set (new_events ?s s') \<and>
      (\<forall>t. Xclip t \<notin> set (new_events ?s s') \<and> Xdotool t \<notin> set (new_events ?s s'))"
    using empty_transcript_no_delivery
      [where e = silent_env and s = ?s and s' = s' and engine = 1 and p = 0
        and language = None and segments = "[]"]
      st tr eng transcript_nothing
    by blast
  have "map_option (\<lambda>s'. Xclip ''hello world'' \<in> set (new_events ?x s'))
          (stop_recording example_env ?x) = Some True"
    by (simp add: example_facts)
  then obtain x' where sx: "stop_recording example_env ?x = Some x'"
    and cl: "Xclip ''hello world'' \<in> set (new_events ?x x')"
    by (cases "stop_recording example_env ?x") auto
  have "''hello world'' \<noteq> []"
    using empty_transcript_no_delivery
      [where e = example_env and s = ?x and s' = x' and t = "''hello world''"] sx cl
    by blast
  then show ?thesis
    using st tr quiet eng transcript_nothing sx cl by simp
qed

lemma stop_recording_hint:
  assumes "stop_recording e s = Some s'"
    and "Transcribe engine p h \<in> set (new_events s s')"
  shows "language_kwarg (active_language s) (active_model_name s) = Inr h"
proof -
  from assms obtain s5 r
    where 5: "reports (s\<lparr>recording := False, record_process := None\<rparr>) s5"
      and 1: "Transcribe engine p h \<in> set (new_events s5 (fst (transcribe_and_deliver e (heap s5 r) s5)))"
    by (rule stop_recording_transcribe)
  have "active_language s5 = active_language s" and "active_model_name s5 = active_model_name s"
    using reportsD(1) [OF 5] by (simp_all add: session_def)
  then show ?thesis
    using transcribe_hint [OF 1] by simp
qed

text \<open>
  The language passed in a transcription call of \<open>stop_recording\<close>: the active language
  when that is set, not empty, not \<open>auto\<close>, and the active model does not end with \<open>.en\<close>.
\<close>

lemma language_hint_rule:
  assumes "stop_recording e s = Some s'" and "Transcribe engine p h \<in> set (new_events s s')"
    and "active_model_name s = Some m"
  shows "h = (if truthy (active_language s) \<and> active_language s \<noteq> Some ''auto'' \<and>
                 \<not> py_endswith m ''.en''
              then active_language s else None)"
proof -
  have "language_kwarg (active_language s) (Some m) = Inr h"
    using stop_recording_hint [OF assms(1,2)] assms(3) by simp
  then show ?thesis
    by (auto simp: language_kwarg_def truthy_def split: option.splits if_splits)
qed

text \<open>
  Claim C4. The active language of a session is a language of the hotkey table: an
  option name of the settings file, which is never empty, or \<open>auto\<close>. In every
  transcription call of \<open>stop_recording\<close> for such a language, a language is passed to the
  engine if and only if the active language is not \<open>auto\<close> and the active model does not
  end with \<open>.en\<close>, and what is passed is the active language; in particular a model that
  ends with \<open>.en\<close> never gets one, whatever the language.
\<close>

theorem language_hint_iff:
  "stop_recording e s = Some s' \<and> Transcribe engine p h \<in> set (new_events s s') \<and>
   active_language s = Some l \<and> l \<noteq> [] \<and> active_model_name s = Some m \<longrightarrow>
     (h \<noteq> None \<longleftrightarrow> l \<noteq> ''auto'' \<and> \<not> py_endswith m ''.en'') \<and>
     (h \<noteq> None \<longrightarrow> h = Some l) \<and>
     (py_endswith m ''.en'' \<longrightarrow> h = None)"
proof
  assume a: "stop_recording e s = Some s' \<and> Transcribe engine p h \<in> set (new_events s s') \<and>
   active_language s = Some l \<and> l \<noteq> [] \<and> active_model_name s = Some m"
  then have "h = (if truthy (active_language s) \<and> active_language s \<noteq> Some ''auto'' \<and>
                 \<not> py_endswith m ''.en''
              then active_language s else None)"
    using language_hint_rule [of e s s' engine p h m] by simp
  then show "(h \<noteq> None \<longleftrightarrow> l \<noteq> ''auto'' \<and> \<not> py_endswith m ''.en'') \<and>
     (h \<noteq> None \<longrightarrow> h = Some l) \<and>
     (py_endswith m ''.en'' \<longrightarrow> h = None)"
    using a by (simp add: truthy_def)
qed

text \<open>
  German with the model \<open>base\<close>: the call passes \<open>de\<close>. English with the model \<open>base.en\<close>:
  the call passes no language.
\<close>

theorem language_hint_iff_witness:
  "map_option
     (\<lambda>s'. Transcribe 1 0 (Some ''de'') \<in> set (new_events (on_press example_env (Key ''f10'') init) s'))
     (stop_recording example_env (on_press example_env (Key ''f10'') init)) = Some True \<and>
   active_language (on_press example_env (Key ''f10'') init) = Some ''de'' \<and>
   active_model_name (on_press example_env (Key ''f10'') init) = Some ''base'' \<and>
   ''de'' \<noteq> [] \<and> ''de'' \<noteq> ''auto'' \<and> \<not> py_endswith ''base'' ''.en'' \<and>
   map_option
     (\<lambda>s'. Transcribe 1 0 None \<in> set (new_events (on_press example_env (Key ''f9'') init) s'))
     (stop_recording example_env (on_press example_env (Key ''f9'') init)) = Some True \<and>
   active_language (on_press example_env (Key ''f9'') init) = Some ''en'' \<and>
   active_model_name (on_press example_env (Key ''f9'') init) = Some ''base.en'' \<and>
   ''en'' \<noteq> [] \<and> py_endswith ''base.en'' ''.en''"
proof -
  let ?d = "on_press example_env (Key ''f10'') init"
  let ?x = "on_press example_env (Key ''f9'') init"
  have ev: "map_option (\<lambda>s'. Transcribe 1 0 (Some ''de'') \<in> set (new_events ?d s'))
          (stop_recording example_env ?d) = Some True"
    by (simp add: example_facts)
  then obtain d' where sd: "stop_recording example_env ?d = Some d'"
    and td: "Transcribe 1 0 (Some ''de'') \<in> set (new_events ?d d')"
    by (cases "stop_recording example_env ?d") auto
  have fd: "active_language ?d = Some ''de''" "active_model_name ?d = Some ''base''"
    by (simp_all add: example_facts)
  have "(Some ''de'' \<noteq> None) = (''de'' \<noteq> ''auto'' \<and> \<not> py_endswith ''base'' ''.en'')"
    using language_hint_iff
      [where e = example_env and s = ?d and s' = d' and engine = 1 and p = 0
        and h = "Some ''de''" and l = "''de''" and m = "''base''"] sd td fd
    by simp
  then have nd: "\<not> py_endswith ''base'' ''.en''"
    by simp
  have ex: "map_option (\<lambda>s'. Transcribe 1 0 None \<in> set (new_events ?x s'))
          (stop_recording example_env ?x) = Some True"
    by (simp add: example_facts)
  then obtain x' where sx: "stop_recording example_env ?x = Some x'"
    and tx: "Transcribe 1 0 None \<in> set (new_events ?x x')"
    by (cases "stop_recording example_env ?x") auto
  have fx: "active_language ?x = Some ''en''" "active_model_name ?x = Some ''base.en''"
    by (simp_all add: example_facts)
  have "((None :: string option) \<noteq> None) = (''en'' \<noteq> ''auto'' \<and> \<not> py_endswith ''base.en'' ''.en'')"
    using language_hint_iff
      [where e = example_env and s = ?x and s' = x' and engine = 1 and p = 0
        and h = None and l = "''en''" and m = "''base.en''"] sx tx fx
    by simp
  then have en: "py_endswith ''base.en'' ''.en''"
    by simp
  show ?thesis
    using ev fd nd ex fx en by simp
qed

end
